theory Spec2Isabelle
  imports Complex_Main
begin

section \<open>Text primitives of the Python runtime\<close>

text \<open>
  Python text (\<^verbatim>\<open>str\<close>) is a sequence of code points. It is modelled as \<^typ>\<open>string\<close>,
  one \<^typ>\<open>char\<close> per code point, which covers the code points below 256; \<open>length\<close>
  and \<open>take\<close> therefore count what \<^verbatim>\<open>len\<close> and slicing count. The process runner
  decodes the captured bytes before anything else looks at them, so the model starts
  from decoded text.
\<close>

definition whitespace :: "char list" where
  \<comment> \<open>the code points below 256 that \<^verbatim>\<open>str.isspace\<close>, \<^verbatim>\<open>str.strip()\<close> and the
      pattern \<^verbatim>\<open>\s\<close> treat as whitespace\<close>
  "whitespace = [CHR 0x09, CHR 0x0A, CHR 0x0B, CHR 0x0C, CHR 0x0D,
                 CHR 0x1C, CHR 0x1D, CHR 0x1E, CHR 0x1F, CHR 0x20, CHR 0x85, CHR 0xA0]"

definition isspace :: "char \<Rightarrow> bool" where
  "isspace c = (c \<in> set whitespace)"

definition lstrip :: "string \<Rightarrow> string" where
  "lstrip s = dropWhile isspace s"

definition rstrip :: "string \<Rightarrow> string" where
  "rstrip s = rev (dropWhile isspace (rev s))"

definition strip :: "string \<Rightarrow> string" where
  \<comment> \<open>\<^verbatim>\<open>s.strip()\<close>\<close>
  "strip s = rstrip (lstrip s)"

definition lstrip_chars :: "string \<Rightarrow> string \<Rightarrow> string" where
  \<comment> \<open>\<^verbatim>\<open>s.lstrip(chars)\<close>\<close>
  "lstrip_chars chars s = dropWhile (\<lambda>c. c \<in> set chars) s"

fun split_char :: "char \<Rightarrow> string \<Rightarrow> string list" where
  \<comment> \<open>\<^verbatim>\<open>s.split(sep)\<close> for a separator of one character\<close>
  "split_char sep [] = [[]]"
| "split_char sep (c # cs) =
     (if c = sep then [] # split_char sep cs
      else (case split_char sep cs of
              [] \<Rightarrow> [[c]]
            | w # ws \<Rightarrow> (c # w) # ws))"

fun join :: "string \<Rightarrow> string list \<Rightarrow> string" where
  \<comment> \<open>\<^verbatim>\<open>sep.join(xs)\<close>\<close>
  "join sep [] = []"
| "join sep [x] = x"
| "join sep (x # y # ys) = x @ sep @ join sep (y # ys)"

definition linebreaks :: "char list" where
  \<comment> \<open>the line boundaries of \<^verbatim>\<open>str.splitlines\<close> below 256, carriage return apart\<close>
  "linebreaks = [CHR 0x0A, CHR 0x0B, CHR 0x0C, CHR 0x1C, CHR 0x1D, CHR 0x1E, CHR 0x85]"

fun splitlines_from :: "string \<Rightarrow> string \<Rightarrow> string list" where
  \<comment> \<open>\<open>cur\<close> is the part of the current line already read\<close>
  "splitlines_from cur [] = (if cur = [] then [] else [cur])"
| "splitlines_from cur (c # cs) =
     (if c = CHR 0x0D then
        (case cs of
           [] \<Rightarrow> [cur]
         | d # ds \<Rightarrow> if d = CHR 0x0A then cur # splitlines_from [] ds
                     else cur # splitlines_from [] cs)
      else if c \<in> set linebreaks then cur # splitlines_from [] cs
      else splitlines_from (cur @ [c]) cs)"

definition splitlines :: "string \<Rightarrow> string list" where
  \<comment> \<open>\<^verbatim>\<open>s.splitlines()\<close>: a carriage return followed by a line feed is one boundary,
      and no empty line follows a final boundary\<close>
  "splitlines s = splitlines_from [] s"

subsection \<open>Decimal numbers\<close>

definition digit_char :: "nat \<Rightarrow> char" where
  "digit_char d = char_of (of_char CHR ''0'' + d)"

function str_nat :: "nat \<Rightarrow> string" where
  "str_nat n = (if n < 10 then [digit_char n] else str_nat (n div 10) @ [digit_char (n mod 10)])"
  by pat_completeness auto
termination
  by (relation "measure id") auto

declare str_nat.simps [simp del]

definition str_int :: "int \<Rightarrow> string" where
  \<comment> \<open>\<^verbatim>\<open>str(i)\<close>\<close>
  "str_int i = (if i < 0 then CHR ''-'' # str_nat (nat (- i)) else str_nat (nat i))"

definition isdigit :: "char \<Rightarrow> bool" where
  "isdigit c = (c \<in> set ''0123456789'')"

definition digit_val :: "char \<Rightarrow> nat" where
  "digit_val c = of_char c - of_char CHR ''0''"

fun digits_value :: "nat \<Rightarrow> string \<Rightarrow> nat option" where
  \<comment> \<open>the digits after the first one: each is a digit, or an underscore followed by a digit\<close>
  "digits_value acc [] = Some acc"
| "digits_value acc [c] = (if isdigit c then Some (10 * acc + digit_val c) else None)"
| "digits_value acc (c # d # ds) =
     (if isdigit c then digits_value (10 * acc + digit_val c) (d # ds)
      else if c = CHR ''_'' \<and> isdigit d then digits_value (10 * acc + digit_val d) ds
      else None)"

definition unsigned_value :: "string \<Rightarrow> nat option" where
  "unsigned_value s =
     (case s of
        [] \<Rightarrow> None
      | c # cs \<Rightarrow> if isdigit c then digits_value (digit_val c) cs else None)"

definition int_whitespace :: "char list" where
  \<comment> \<open>what \<^verbatim>\<open>int\<close> skips around a literal: the ASCII whitespace of C, and the
      whitespace code points from 128 on; below 128 it does not skip the separators
      \<^verbatim>\<open>\x1c\<close> to \<^verbatim>\<open>\x1f\<close>, which \<^verbatim>\<open>str.strip()\<close> strips\<close>
  "int_whitespace = [CHR 0x09, CHR 0x0A, CHR 0x0B, CHR 0x0C, CHR 0x0D, CHR 0x20, CHR 0x85, CHR 0xA0]"

definition int_strip :: "string \<Rightarrow> string" where
  "int_strip s =
     rev (dropWhile (\<lambda>c. c \<in> set int_whitespace)
            (rev (dropWhile (\<lambda>c. c \<in> set int_whitespace) s)))"

definition max_str_digits :: nat where
  \<comment> \<open>the interpreter's default limit on the length of a decimal literal\<close>
  "max_str_digits = 4300"


section \<open>Exceptions, the host and the state\<close>

datatype exn =
    TimeoutError
  | OSError string
  | AssertionError string
  | ValueError string
  | IndexError string
  | RuntimeError string
  | OverflowError string
  | SystemExit int

fun is_Exception :: "exn \<Rightarrow> bool" where
  \<comment> \<open>what \<^verbatim>\<open>except Exception\<close> catches: \<^verbatim>\<open>SystemExit\<close> derives from
      \<^verbatim>\<open>BaseException\<close> only\<close>
  "is_Exception (SystemExit c) = False"
| "is_Exception e = True"

fun exn_str :: "exn \<Rightarrow> string" where
  \<comment> \<open>\<^verbatim>\<open>str(e)\<close>, the text an f-string shows for \<^verbatim>\<open>{e}\<close>\<close>
  "exn_str TimeoutError = []"
| "exn_str (OSError m) = m"
| "exn_str (AssertionError m) = m"
| "exn_str (ValueError m) = m"
| "exn_str (IndexError m) = m"
| "exn_str (RuntimeError m) = m"
| "exn_str (OverflowError m) = m"
| "exn_str (SystemExit c) = str_int c"

datatype event =
    Spawned "string list" "string option" int
  | Killed "string list"

record state =
  events :: "event list"
  environ :: "string \<rightharpoonup> string"
  made_dirs :: "string list"
  files :: "string \<rightharpoonup> string"
  stderr :: "string list"
  infos :: "string list"

text \<open>
  \<open>events\<close> lists, in order, the processes started (command, working directory, timeout)
  and the processes killed; \<open>environ\<close> is \<^verbatim>\<open>os.environ\<close>; \<open>made_dirs\<close> and \<open>files\<close>
  are the directories made and the files written; \<open>stderr\<close> and \<open>infos\<close> are the lines
  printed on standard error and the messages sent through \<^verbatim>\<open>ctx.info\<close>.
\<close>

datatype behaviour =
    CannotStart string
  | Finishes nat int string string
  | NeverFinishes

text \<open>
  What the host does with a command: \<open>CannotStart m\<close> when no process can be created
  (\<^verbatim>\<open>create_subprocess_exec\<close> raises an \<^verbatim>\<open>OSError\<close> of text \<open>m\<close>, as for a binary
  that is not on the path); \<open>Finishes d code out err\<close> when the process exits after
  \<open>d\<close> seconds with that exit code and those decoded output streams; \<open>NeverFinishes\<close>
  when it runs until it is killed.
\<close>

record host =
  proc :: "state \<Rightarrow> string list \<Rightarrow> string option \<Rightarrow> behaviour"
  clock :: "state \<Rightarrow> rat"
  getcwd :: string
  mkdir_error :: "state \<Rightarrow> string \<Rightarrow> string option"
  write_error :: "state \<Rightarrow> string \<Rightarrow> string option"
  int_error_text :: "string \<Rightarrow> string"

text \<open>
  The host is everything the program does not decide: the behaviour of the external
  processes (which may depend on all that happened before, so it reads the state),
  \<^verbatim>\<open>time.time()\<close>, \<^verbatim>\<open>os.getcwd()\<close>, whether a directory can be made or a file
  written (\<open>Some m\<close> is the text of the \<^verbatim>\<open>OSError\<close>), and the text of the
  \<^verbatim>\<open>ValueError\<close> with which \<^verbatim>\<open>int\<close> rejects a literal.
\<close>

type_synonym 'a io = "state \<Rightarrow> (exn + 'a) \<times> state"

definition io_return :: "'a \<Rightarrow> 'a io" where
  "io_return x s = (Inr x, s)"

definition io_raise :: "exn \<Rightarrow> 'a io" where
  "io_raise e s = (Inl e, s)"

definition io_bind :: "'a io \<Rightarrow> ('a \<Rightarrow> 'b io) \<Rightarrow> 'b io" where
  \<comment> \<open>one statement after another: an exception of the first skips the second\<close>
  "io_bind m f s = (case m s of (Inl e, s') \<Rightarrow> (Inl e, s') | (Inr x, s') \<Rightarrow> f x s')"

definition io_get :: "(state \<Rightarrow> 'a) \<Rightarrow> 'a io" where
  "io_get f s = (Inr (f s), s)"

definition io_modify :: "(state \<Rightarrow> state) \<Rightarrow> unit io" where
  "io_modify f s = (Inr (), f s)"

definition io_when :: "bool \<Rightarrow> unit io \<Rightarrow> unit io" where
  "io_when b m = (if b then m else io_return ())"

definition except_Exception :: "'a io \<Rightarrow> (exn \<Rightarrow> 'a io) \<Rightarrow> 'a io" where
  \<comment> \<open>\<^verbatim>\<open>try: m  except Exception as e: handler e\<close>\<close>
  "except_Exception m handler s =
     (case m s of
        (Inl e, s') \<Rightarrow> if is_Exception e then handler e s' else (Inl e, s')
      | (Inr x, s') \<Rightarrow> (Inr x, s'))"

definition truthy :: "string option \<Rightarrow> bool" where
  \<comment> \<open>the truth value of an \<^verbatim>\<open>Optional[str]\<close>: neither \<^verbatim>\<open>None\<close> nor empty\<close>
  "truthy x = (case x of None \<Rightarrow> False | Some v \<Rightarrow> v \<noteq> [])"

definition or_else :: "string \<Rightarrow> string \<Rightarrow> string" where
  \<comment> \<open>\<^verbatim>\<open>a or b\<close> on text\<close>
  "or_else a b = (if a \<noteq> [] then a else b)"

definition py_int :: "host \<Rightarrow> string \<Rightarrow> exn + int" where
  \<comment> \<open>\<^verbatim>\<open>int(s)\<close>: surrounding whitespace, an optional sign, decimal digits with single
      underscores between them, and no more digits than the interpreter's limit\<close>
  "py_int h s =
     (let t = int_strip s;
          neg = (case t of [] \<Rightarrow> False | c # _ \<Rightarrow> c = CHR ''-'');
          body = (case t of [] \<Rightarrow> [] | c # cs \<Rightarrow> if c = CHR ''-'' \<or> c = CHR ''+'' then cs else t)
      in case unsigned_value body of
           None \<Rightarrow> Inl (ValueError (int_error_text h s))
         | Some n \<Rightarrow>
             if max_str_digits < length (filter isdigit body) then Inl (ValueError (int_error_text h s))
             else Inr (if neg then - int n else int n))"

definition lift :: "exn + 'a \<Rightarrow> 'a io" where
  "lift r s = (r, s)"

section \<open>The server\<close>

definition SERVER_NAME :: string where
  "SERVER_NAME = ''Auggie MCP''"

definition DEFAULT_TIMEOUT :: int where
  "DEFAULT_TIMEOUT = 120"

definition env :: "state \<Rightarrow> string \<rightharpoonup> string" where
  \<comment> \<open>\<^verbatim>\<open>_env()\<close>: a copy of the ambient environment\<close>
  "env s = environ s"

definition run :: "host \<Rightarrow> string list \<Rightarrow> string option \<Rightarrow> int \<Rightarrow> (int \<times> string \<times> string) io" where
  \<comment> \<open>\<^verbatim>\<open>_run(cmd, cwd, timeout)\<close>. The process completes within the timeout when it
      finishes in fewer seconds; otherwise it is killed and the timeout is raised again.\<close>
  "run h cmd cwd timeout s =
     (case proc h s cmd cwd of
        CannotStart m \<Rightarrow> (Inl (OSError m), s)
      | Finishes d code out err \<Rightarrow>
          (let s1 = s\<lparr>events := events s @ [Spawned cmd cwd timeout]\<rparr>
           in if int d < timeout then (Inr (code, out, err), s1)
              else (Inl TimeoutError, s1\<lparr>events := events s1 @ [Killed cmd]\<rparr>))
      | NeverFinishes \<Rightarrow>
          (let s1 = s\<lparr>events := events s @ [Spawned cmd cwd timeout]\<rparr>
           in (Inl TimeoutError, s1\<lparr>events := events s1 @ [Killed cmd]\<rparr>)))"

definition flag_arg :: "string \<Rightarrow> string option \<Rightarrow> string list" where
  \<comment> \<open>\<^verbatim>\<open>[flag, value] if value else []\<close>\<close>
  "flag_arg flag v = (case v of None \<Rightarrow> [] | Some x \<Rightarrow> if x = [] then [] else [flag, x])"

definition auggie_base_args ::
  "string \<Rightarrow> string option \<Rightarrow> string option \<Rightarrow> string option \<Rightarrow> bool \<Rightarrow> string list" where
  \<comment> \<open>\<^verbatim>\<open>_auggie_base_args\<close>\<close>
  "auggie_base_args instruction workspace_root model rules_path quiet =
     [''auggie'']
     @ (if quiet then [''--quiet''] else [''--print''])
     @ flag_arg ''--workspace-root'' workspace_root
     @ flag_arg ''--model'' model
     @ flag_arg ''--rules'' rules_path
     @ [instruction]"

definition safe_chars :: "char list" where
  \<comment> \<open>the characters outside the class \<^verbatim>\<open>[^\w@%+=:,./-]\<close> (ASCII) of \<^verbatim>\<open>shlex\<close>\<close>
  "safe_chars = ''abcdefghijklmnopqrstuvwxyzABCDEFGHIJKLMNOPQRSTUVWXYZ0123456789_@%+=:,./-''"

definition shlex_quote :: "string \<Rightarrow> string" where
  \<comment> \<open>\<^verbatim>\<open>shlex.quote\<close>\<close>
  "shlex_quote s =
     (if s = [] then [CHR 0x27, CHR 0x27]
      else if list_all (\<lambda>c. c \<in> set safe_chars) s then s
      else [CHR 0x27]
           @ concat (map (\<lambda>c. if c = CHR 0x27
                               then [CHR 0x27, CHR 0x22, CHR 0x27, CHR 0x22, CHR 0x27]
                               else [c]) s)
           @ [CHR 0x27])"

definition info :: "bool \<Rightarrow> string \<Rightarrow> unit io" where
  \<comment> \<open>\<^verbatim>\<open>if ctx is not None: await ctx.info(msg)\<close>; \<open>ctx\<close> tells whether a context is given\<close>
  "info ctx msg = io_when ctx (io_modify (\<lambda>s. s\<lparr>infos := infos s @ [msg]\<rparr>))"

definition print_stderr :: "string \<Rightarrow> unit io" where
  "print_stderr msg = io_modify (\<lambda>s. s\<lparr>stderr := stderr s @ [msg]\<rparr>)"

definition agent_failure :: "string \<Rightarrow> string \<Rightarrow> exn" where
  \<comment> \<open>the error of a failed agent run, from its standard output and standard error\<close>
  "agent_failure out err = RuntimeError (''Auggie failed: '' @ or_else (strip err) (strip out))"

definition preflight_body :: "host \<Rightarrow> unit io" where
  \<comment> \<open>the \<^verbatim>\<open>try\<close> block of \<^verbatim>\<open>_preflight\<close>\<close>
  "preflight_body h =
     io_bind (run h [''node'', ''-v''] None 5) (\<lambda>(code, out, _).
       if \<not> (code = 0 \<and> strip out \<noteq> []) then io_raise (AssertionError [])
       else
         (case split_char CHR ''.'' (lstrip_chars ''v'' (strip out)) of
            [] \<Rightarrow> io_raise (IndexError ''list index out of range'')
          | ver0 # _ \<Rightarrow>
              io_bind (lift (py_int h ver0)) (\<lambda>major.
                if \<not> 18 \<le> major
                then io_raise (AssertionError (''Node 18+ required, found v'' @ strip out))
                else
                  io_bind (run h [''auggie'', ''--version''] None 5) (\<lambda>(code, _, _).
                    if \<not> code = 0 then io_raise (AssertionError [])
                    else io_return ()))))"

definition preflight :: "host \<Rightarrow> unit io" where
  \<comment> \<open>\<^verbatim>\<open>_preflight\<close>: any exception of the checks is printed and turned into
      \<^verbatim>\<open>sys.exit(1)\<close>, which raises \<^verbatim>\<open>SystemExit(1)\<close>\<close>
  "preflight h =
     except_Exception (preflight_body h) (\<lambda>e.
       io_bind (print_stderr (''['' @ SERVER_NAME @ ''] Preflight failed: '' @ exn_str e)) (\<lambda>_.
         io_raise (SystemExit 1)))"

definition checked_preflight :: "host \<Rightarrow> unit io" where
  \<comment> \<open>the guard that opens both tools:
      \<^verbatim>\<open>try: await _preflight()  except Exception as e: raise RuntimeError(...)\<close>\<close>
  "checked_preflight h =
     except_Exception (preflight h) (\<lambda>e.
       io_raise (RuntimeError (''Preflight failed: '' @ exn_str e)))"

record usage_info =
  duration_ms :: int

record with_usage =
  usage :: usage_info

record QuestionResult = with_usage +
  answer :: string

subsection \<open>Floating point\<close>

text \<open>
  A Python \<^verbatim>\<open>float\<close> is a binary64 number. A finite one is modelled by its value, a
  rational; an arithmetic operation gives the exact result rounded to the nearest
  binary64 number, ties to the even significand, and infinity when that is beyond the
  largest one.
\<close>

function ilog2 :: "nat \<Rightarrow> nat" where
  \<comment> \<open>the position of the leading bit of a positive number\<close>
  "ilog2 n = (if n < 2 then 0 else Suc (ilog2 (n div 2)))"
  by pat_completeness auto
termination
  by (relation "measure id") auto

declare ilog2.simps [simp del]

definition pow2 :: "int \<Rightarrow> rat" where
  "pow2 e = (if 0 \<le> e then 2 ^ nat e else 1 / 2 ^ nat (- e))"

definition binade :: "rat \<Rightarrow> int" where
  \<comment> \<open>the exponent \<open>e\<close> for which \<open>\<bar>x\<bar>\<close> is at least \<open>pow2 e\<close> and below \<open>pow2 (e + 1)\<close>,
      for \<open>x\<close> other than 0\<close>
  "binade x =
     (let a = \<bar>x\<bar>
      in if 1 \<le> a then int (ilog2 (nat \<lfloor>a\<rfloor>))
         else (let k = int (ilog2 (nat \<lfloor>1 / a\<rfloor>))
               in if a = pow2 (- k) then - k else - k - 1))"

definition round_even :: "rat \<Rightarrow> int" where
  \<comment> \<open>the nearest integer, the even one of two that are equally near\<close>
  "round_even n =
     (let f = \<lfloor>n\<rfloor>; r = n - of_int f
      in if r < 1 / 2 then f
         else if 1 / 2 < r then f + 1
         else if even f then f else f + 1)"

definition to_double :: "rat \<Rightarrow> rat" where
  \<comment> \<open>rounding to 53 significant bits; below \<open>pow2 (- 1022)\<close> the spacing stays that of
      the subnormal numbers\<close>
  "to_double x =
     (if x = 0 then 0
      else let e = max (binade x) (- 1022); ulp = pow2 (e - 52)
           in of_int (round_even (x / ulp)) * ulp)"

definition float_result :: "rat \<Rightarrow> rat option" where
  \<comment> \<open>the float for an exact result; \<open>None\<close> stands for an infinity\<close>
  "float_result x = (let d = to_double x in if \<bar>d\<bar> < pow2 1024 then Some d else None)"

definition py_trunc :: "rat \<Rightarrow> int" where
  \<comment> \<open>\<^verbatim>\<open>int(x)\<close> on a finite float: rounding towards zero\<close>
  "py_trunc x = (if x < 0 then \<lceil>x\<rceil> else \<lfloor>x\<rfloor>)"

definition elapsed_ms :: "rat \<Rightarrow> rat \<Rightarrow> exn + int" where
  \<comment> \<open>\<^verbatim>\<open>int((t1 - t0) * 1000)\<close> for the floats \<open>t0\<close> and \<open>t1\<close>; \<^verbatim>\<open>int\<close> of an infinity
      raises\<close>
  "elapsed_ms t0 t1 =
     (case float_result (t1 - t0) of
        None \<Rightarrow> Inl (OverflowError ''cannot convert float infinity to integer'')
      | Some d \<Rightarrow>
          (case float_result (d * 1000) of
             None \<Rightarrow> Inl (OverflowError ''cannot convert float infinity to integer'')
           | Some m \<Rightarrow> Inr (py_trunc m)))"

definition time_time :: "host \<Rightarrow> state \<Rightarrow> rat" where
  \<comment> \<open>\<^verbatim>\<open>time.time()\<close>: the float for the host's clock\<close>
  "time_time h s = to_double (clock h s)"

definition ask_question ::
  "host \<Rightarrow> string \<Rightarrow> string option \<Rightarrow> string option \<Rightarrow> string option \<Rightarrow> int \<Rightarrow> bool
     \<Rightarrow> QuestionResult io" where
  "ask_question h question workspace_root model rules_path timeout_sec ctx =
     io_bind (checked_preflight h) (\<lambda>_.
     io_bind (io_get (time_time h)) (\<lambda>t0.
     let cmd = auggie_base_args question workspace_root model rules_path True in
     io_bind (info ctx (''Running: '' @ join '' '' (map shlex_quote cmd))) (\<lambda>_.
     io_bind (run h cmd workspace_root timeout_sec) (\<lambda>(code, out, err).
       if code \<noteq> 0 then io_raise (agent_failure out err)
       else
         io_bind (io_get (time_time h)) (\<lambda>t1.
         io_bind (lift (elapsed_ms t0 t1)) (\<lambda>ms.
         io_return \<lparr>usage = \<lparr>duration_ms = ms\<rparr>, answer = strip out\<rparr>))))))"

definition git :: "host \<Rightarrow> string list \<Rightarrow> string \<Rightarrow> int \<Rightarrow> string io" where
  \<comment> \<open>\<^verbatim>\<open>_git(args, cwd, timeout)\<close>\<close>
  "git h args cwd timeout =
     io_bind (run h ([''git''] @ args) (Some cwd) timeout) (\<lambda>(code, out, err).
       if code \<noteq> 0
       then io_raise (RuntimeError (''git '' @ join '' '' args @ '' failed: ''
                                     @ or_else (strip err) (strip out)))
       else io_return out)"

definition git_timeout :: int where
  \<comment> \<open>the default \<^verbatim>\<open>timeout\<close> of \<^verbatim>\<open>_git\<close>\<close>
  "git_timeout = 60"

subsection \<open>Paths\<close>

definition splitroot :: "string \<Rightarrow> string \<times> string" where
  \<comment> \<open>the root of a POSIX path (no slash, one, or exactly two) and the rest\<close>
  "splitroot p =
     (case p of
        [] \<Rightarrow> ([], [])
      | c1 # r1 \<Rightarrow>
          if c1 \<noteq> CHR ''/'' then ([], p)
          else (case r1 of
                  [] \<Rightarrow> (''/'', r1)
                | c2 # r2 \<Rightarrow>
                    if c2 \<noteq> CHR ''/'' then (''/'', r1)
                    else (case r2 of
                            [] \<Rightarrow> (''//'', r2)
                          | c3 # _ \<Rightarrow> if c3 = CHR ''/'' then (''/'', r1) else (''//'', r2))))"

definition Path :: "string \<Rightarrow> string" where
  \<comment> \<open>\<^verbatim>\<open>str(Path(p))\<close>: empty and \<^verbatim>\<open>.\<close> components are dropped\<close>
  "Path p =
     (let (root, rel) = splitroot p;
          tail = filter (\<lambda>x. x \<noteq> [] \<and> x \<noteq> ''.'') (split_char CHR ''/'' rel);
          r = root @ join ''/'' tail
      in if r = [] then ''.'' else r)"

definition posix_join :: "string \<Rightarrow> string \<Rightarrow> string" where
  \<comment> \<open>\<^verbatim>\<open>posixpath.join(a, b)\<close>\<close>
  "posix_join a b =
     (if b \<noteq> [] \<and> hd b = CHR ''/'' then b
      else if a = [] \<or> last a = CHR ''/'' then a @ b
      else a @ ''/'' @ b)"

definition path_div :: "string \<Rightarrow> string \<Rightarrow> string" where
  \<comment> \<open>\<^verbatim>\<open>str(p / name)\<close>\<close>
  "path_div p name = Path (posix_join p name)"

definition mkdir :: "host \<Rightarrow> string \<Rightarrow> unit io" where
  \<comment> \<open>\<^verbatim>\<open>p.mkdir(parents=True, exist_ok=True)\<close>\<close>
  "mkdir h p s =
     (case mkdir_error h s p of
        Some m \<Rightarrow> (Inl (OSError m), s)
      | None \<Rightarrow> (Inr (), s\<lparr>made_dirs := made_dirs s @ [p]\<rparr>))"

definition write_text :: "host \<Rightarrow> string \<Rightarrow> string \<Rightarrow> unit io" where
  \<comment> \<open>\<^verbatim>\<open>p.write_text(text)\<close>\<close>
  "write_text h p text s =
     (case write_error h s p of
        Some m \<Rightarrow> (Inl (OSError m), s)
      | None \<Rightarrow> (Inr (), s\<lparr>files := (files s)(p \<mapsto> text)\<rparr>))"

subsection \<open>The sandbox settings\<close>

definition denied_tools :: "string list" where
  "denied_tools = [''save-file'', ''str-replace-editor'', ''remove-files'', ''launch-process'']"

definition dq :: "string \<Rightarrow> string" where
  \<comment> \<open>a JSON string of plain characters\<close>
  "dq x = [CHR 0x22] @ x @ [CHR 0x22]"

definition deny_entry :: "string \<Rightarrow> string" where
  "deny_entry tool =
     ''{'' @ dq ''tool-name'' @ '': '' @ dq tool @ '', '' @ dq ''permission'' @ '': ''
     @ ''{'' @ dq ''type'' @ '': '' @ dq ''deny'' @ ''}}''"

definition settings_json :: string where
  \<comment> \<open>\<^verbatim>\<open>json.dumps(data)\<close> for the constant \<^verbatim>\<open>data\<close> of \<^verbatim>\<open>_read_only_settings\<close>\<close>
  "settings_json =
     ''{'' @ dq ''tool-permissions'' @ '': ['' @ join '', '' (map deny_entry denied_tools) @ '']}''"

definition read_only_settings :: "host \<Rightarrow> string \<Rightarrow> string io" where
  \<comment> \<open>\<^verbatim>\<open>_read_only_settings(tmp_dir)\<close>\<close>
  "read_only_settings h tmp_dir =
     (let p = path_div tmp_dir ''settings.json''
      in io_bind (write_text h p settings_json) (\<lambda>_. io_return p))"

subsection \<open>The status pattern\<close>

text \<open>
  The pattern \<^verbatim>\<open>^\s*[AMDR?]{1,2}\s+(.*)$\<close> is a sequence of character classes, each
  repeated greedily within bounds, closed by \<^verbatim>\<open>$\<close>. \<^verbatim>\<open>re.match\<close> tries the longest
  repetition of a class first and backs off one character at a time when the rest of
  the pattern does not match.
\<close>

datatype piece = Piece "char \<Rightarrow> bool" nat "nat option" bool

text \<open>
  \<open>Piece cls lo hi grp\<close>: the class \<open>cls\<close>, at least \<open>lo\<close> and at most \<open>hi\<close> times
  (\<open>None\<close>: no upper bound), inside a capturing group when \<open>grp\<close> holds.
\<close>

fun first_some :: "'a option list \<Rightarrow> 'a option" where
  "first_some [] = None"
| "first_some (None # xs) = first_some xs"
| "first_some (Some x # xs) = Some x"

fun re_match :: "piece list \<Rightarrow> string \<Rightarrow> string list option" where
  \<comment> \<open>the groups of the first match found, or \<open>None\<close>; the empty pattern is \<^verbatim>\<open>$\<close>, which
      matches at the end of the text and before a final line feed\<close>
  "re_match [] s = (if s = [] \<or> s = [CHR 0x0A] then Some [] else None)"
| "re_match (Piece cls lo hi grp # ps) s =
     (let avail = length (takeWhile cls s);
          most = (case hi of None \<Rightarrow> avail | Some m \<Rightarrow> min m avail)
      in first_some
           (map (\<lambda>k. map_option (\<lambda>groups. if grp then take k s # groups else groups)
                                 (re_match ps (drop k s)))
                (rev [lo..<Suc most])))"

definition status_char :: "char \<Rightarrow> bool" where
  \<comment> \<open>the class \<^verbatim>\<open>[AMDR?]\<close>\<close>
  "status_char c = (c \<in> set ''AMDR?'')"

definition any_char :: "char \<Rightarrow> bool" where
  \<comment> \<open>the class \<^verbatim>\<open>.\<close>: every character but the line feed\<close>
  "any_char c = (c \<noteq> CHR 0x0A)"

definition status_pattern :: "piece list" where
  "status_pattern =
     [Piece isspace 0 None False,
      Piece status_char 1 (Some 2) False,
      Piece isspace 1 None False,
      Piece any_char 0 None True]"

definition status_match :: "string \<Rightarrow> string option" where
  \<comment> \<open>\<^verbatim>\<open>m = re.match(r"^\s*[AMDR?]{1,2}\s+(.*)$", line)\<close>, as \<^verbatim>\<open>m.group(1)\<close> when it matches\<close>
  "status_match line =
     (case re_match status_pattern line of
        None \<Rightarrow> None
      | Some groups \<Rightarrow> (case groups of [] \<Rightarrow> None | g # _ \<Rightarrow> Some g))"

fun collect_files :: "string list \<Rightarrow> string list \<Rightarrow> string list" where
  \<comment> \<open>the loop over the status lines, \<open>files_changed\<close> first\<close>
  "collect_files files_changed [] = files_changed"
| "collect_files files_changed (line # rest) =
     (case status_match line of
        Some path \<Rightarrow> collect_files (files_changed @ [path]) rest
      | None \<Rightarrow> collect_files files_changed rest)"

subsection \<open>The implement tool\<close>

definition scope_hint :: "string list option \<Rightarrow> string" where
  "scope_hint scope =
     (case scope of
        None \<Rightarrow> []
      | Some xs \<Rightarrow> if xs = [] then []
                   else [CHR 0x0A] @ ''Scope: limit edits to '' @ join '', '' xs)"

definition cap_diff :: "string \<Rightarrow> string" where
  \<comment> \<open>\<^verbatim>\<open>diff if len(diff) <= 200_000 else ""\<close>\<close>
  "cap_diff d = (if length d \<le> 200000 then d else [])"

definition default_message :: "string option \<Rightarrow> string \<Rightarrow> string" where
  \<comment> \<open>\<^verbatim>\<open>if not commit_message: commit_message = f"Implement: {prompt[:72]}"\<close>\<close>
  "default_message commit_message prompt =
     (case commit_message of
        None \<Rightarrow> ''Implement: '' @ take 72 prompt
      | Some m \<Rightarrow> if m = [] then ''Implement: '' @ take 72 prompt else m)"

definition resolve_root :: "host \<Rightarrow> string option \<Rightarrow> string" where
  \<comment> \<open>\<^verbatim>\<open>if not workspace_root: workspace_root = os.getcwd()\<close>\<close>
  "resolve_root h workspace_root =
     (case workspace_root of
        None \<Rightarrow> getcwd h
      | Some w \<Rightarrow> if w = [] then getcwd h else w)"

definition agent_command ::
  "string \<Rightarrow> string \<Rightarrow> string list option \<Rightarrow> string option \<Rightarrow> string option \<Rightarrow> string list" where
  \<comment> \<open>the instruction with its scope hint, and the command line built from it\<close>
  "agent_command prompt workspace_root scope model rules_path =
     (let instruction = strip prompt @ scope_hint scope
      in auggie_base_args instruction (Some workspace_root) model rules_path True)"

definition invoke_agent ::
  "host \<Rightarrow> string \<Rightarrow> string option \<Rightarrow> string option \<Rightarrow> string list option \<Rightarrow> bool \<Rightarrow> int
     \<Rightarrow> string option \<Rightarrow> string option \<Rightarrow> bool \<Rightarrow> (string \<times> rat \<times> string) io" where
  \<comment> \<open>\<^verbatim>\<open>implement\<close> up to the agent run: it gives the effective workspace root, the
      clock reading \<open>t0\<close> and the agent's standard output\<close>
  "invoke_agent h prompt workspace_root0 branch scope dry_run timeout_sec model rules_path ctx =
     io_bind (checked_preflight h) (\<lambda>_.
     let workspace_root = resolve_root h workspace_root0 in
     io_bind (io_get (time_time h)) (\<lambda>t0.
     io_bind (case branch of
                None \<Rightarrow> io_return ()
              | Some b \<Rightarrow> if b = [] then io_return ()
                          else io_bind (git h [''checkout'', ''-B'', b] workspace_root git_timeout)
                                       (\<lambda>_. io_return ())) (\<lambda>_.
     let tmp = path_div (path_div (Path workspace_root) ''.augment'') ''.mcp-temp'' in
     io_bind (mkdir h tmp) (\<lambda>_.
     io_bind (io_get environ) (\<lambda>extra_env0.
     io_bind (if dry_run
              then io_bind (read_only_settings h tmp) (\<lambda>settings_path.
                   let extra_env = extra_env0(''AUGMENT_CACHE_DIR'' \<mapsto> tmp) in
                   io_modify (\<lambda>s. s\<lparr>environ := environ s ++ extra_env\<rparr>))
              else io_return ()) (\<lambda>_.
     let cmd = agent_command prompt workspace_root scope model rules_path in
     io_bind (info ctx (''Running: '' @ join '' '' (map shlex_quote cmd))) (\<lambda>_.
     io_bind (run h cmd (Some workspace_root) timeout_sec) (\<lambda>(code, out, err).
       if code \<noteq> 0 then io_raise (agent_failure out err)
       else io_return (workspace_root, t0, out)))))))))"

definition collect_changes :: "host \<Rightarrow> string \<Rightarrow> (string list \<times> string) io" where
  \<comment> \<open>\<^verbatim>\<open>implement\<close>, "Collect results": the changed paths and the diff text\<close>
  "collect_changes h workspace_root =
     io_bind (git h [''status'', ''--porcelain''] workspace_root git_timeout) (\<lambda>status.
     let files_changed = collect_files [] (splitlines status) in
     io_bind (if files_changed \<noteq> [] then git h [''diff''] workspace_root git_timeout
              else io_return []) (\<lambda>diff.
     io_return (files_changed, diff)))"

definition commit_changes ::
  "host \<Rightarrow> string \<Rightarrow> string \<Rightarrow> string option \<Rightarrow> bool \<Rightarrow> string list
     \<Rightarrow> (bool \<times> string option) io" where
  \<comment> \<open>\<^verbatim>\<open>implement\<close>, the commit: \<open>committed\<close> and \<open>commit_sha\<close>\<close>
  "commit_changes h prompt workspace_root commit_message0 dry_run files_changed =
     (if \<not> dry_run \<and> files_changed \<noteq> []
      then io_bind (git h [''add'', ''-A''] workspace_root git_timeout) (\<lambda>_.
           let commit_message = default_message commit_message0 prompt in
           io_bind (git h [''commit'', ''-m'', commit_message] workspace_root git_timeout) (\<lambda>_.
           io_bind (git h [''rev-parse'', ''HEAD''] workspace_root git_timeout) (\<lambda>sha.
           io_return (True, Some (strip sha)))))
      else io_return (False, None))"

record ImplementResult = with_usage +
  summary :: string
  files_changed :: "string list"
  diff :: string
  committed :: bool
  commit_sha :: "string option"

definition implement ::
  "host \<Rightarrow> string \<Rightarrow> string option \<Rightarrow> string option \<Rightarrow> string option \<Rightarrow> string list option
     \<Rightarrow> bool \<Rightarrow> int \<Rightarrow> string option \<Rightarrow> string option \<Rightarrow> bool \<Rightarrow> ImplementResult io" where
  "implement h prompt workspace_root0 branch commit_message scope dry_run timeout_sec
             model rules_path ctx =
     io_bind (invoke_agent h prompt workspace_root0 branch scope dry_run timeout_sec
                           model rules_path ctx) (\<lambda>(workspace_root, t0, out).
     io_bind (collect_changes h workspace_root) (\<lambda>(changed, diff_text).
     io_bind (commit_changes h prompt workspace_root commit_message dry_run changed)
             (\<lambda>(is_committed, sha).
     io_bind (io_get (time_time h)) (\<lambda>t1.
     io_bind (lift (elapsed_ms t0 t1)) (\<lambda>ms.
     io_return \<lparr>usage = \<lparr>duration_ms = ms\<rparr>,
                summary = strip out,
                files_changed = changed,
                diff = cap_diff diff_text,
                committed = is_committed,
                commit_sha = sha\<rparr>)))))"

subsection \<open>Reading the events\<close>

definition issued :: "state \<Rightarrow> state \<Rightarrow> event list" where
  \<comment> \<open>the events of a call that starts in \<open>s\<close> and ends in \<open>s'\<close>\<close>
  "issued s s' = drop (length (events s)) (events s')"

fun git_subcommand :: "event \<Rightarrow> string option" where
  "git_subcommand (Spawned (g # sub # _) _ _) = (if g = ''git'' then Some sub else None)"
| "git_subcommand _ = None"

definition git_subcommands :: "event list \<Rightarrow> string list" where
  \<comment> \<open>the version-control subcommands started, in order\<close>
  "git_subcommands evs = List.map_filter git_subcommand evs"

fun commit_message_of :: "event \<Rightarrow> string option" where
  "commit_message_of (Spawned [g, c, m, msg] _ _) =
     (if g = ''git'' \<and> c = ''commit'' \<and> m = ''-m'' then Some msg else None)"
| "commit_message_of _ = None"

definition commit_messages :: "event list \<Rightarrow> string list" where
  \<comment> \<open>the messages of the commits started, in order\<close>
  "commit_messages evs = List.map_filter commit_message_of evs"

definition announced :: "bool \<Rightarrow> string list \<Rightarrow> state \<Rightarrow> state" where
  \<comment> \<open>the state once the command line has been announced through \<^verbatim>\<open>ctx.info\<close>\<close>
  "announced ctx cmd s =
     (if ctx then s\<lparr>infos := infos s @ [''Running: '' @ join '' '' (map shlex_quote cmd)]\<rparr> else s)"

definition preflight_events :: "event list" where
  \<comment> \<open>the two processes of a preflight that passes\<close>
  "preflight_events = [Spawned [''node'', ''-v''] None 5, Spawned [''auggie'', ''--version''] None 5]"

definition checkout_events :: "string option \<Rightarrow> string \<Rightarrow> event list" where
  \<comment> \<open>the branch switch, when a branch is named\<close>
  "checkout_events branch workspace_root =
     (case branch of
        None \<Rightarrow> []
      | Some b \<Rightarrow> if b = [] then []
                  else [Spawned [''git'', ''checkout'', ''-B'', b] (Some workspace_root) git_timeout])"

definition initial :: state where
  \<comment> \<open>a fresh state: nothing has happened\<close>
  "initial = \<lparr>events = [], environ = Map.empty, made_dirs = [], files = Map.empty,
              stderr = [], infos = []\<rparr>"

subsection \<open>Example hosts\<close>

definition scripted :: "(string list \<Rightarrow> behaviour) \<Rightarrow> host" where
  \<comment> \<open>a host whose processes depend on the command only; the clock advances by one
      second with every event\<close>
  "scripted f =
     \<lparr>proc = (\<lambda>s cmd cwd. f cmd),
      clock = (\<lambda>s. of_nat (length (events s))),
      getcwd = ''/repo'',
      mkdir_error = (\<lambda>s p. None),
      write_error = (\<lambda>s p. None),
      int_error_text = (\<lambda>x. ''invalid literal for int() with base 10: '' @ x)\<rparr>"

definition sleeper :: "string list \<Rightarrow> behaviour" where
  \<comment> \<open>every process sleeps five seconds and exits with code 0\<close>
  "sleeper cmd = Finishes 5 0 [] []"

definition tooling ::
  "int \<Rightarrow> string \<Rightarrow> string \<Rightarrow> string \<Rightarrow> string \<Rightarrow> string list \<Rightarrow> behaviour" where
  \<comment> \<open>a host with both binaries installed: the agent takes three seconds and ends with
      the given exit code and output streams; the working tree shows the given status
      and diff\<close>
  "tooling code out err status difftext cmd =
     (if cmd = [''node'', ''-v''] then Finishes 0 0 (''v20.11.0'' @ [CHR 0x0A]) []
      else if cmd = [''auggie'', ''--version''] then Finishes 0 0 (''0.5.0'' @ [CHR 0x0A]) []
      else if take 1 cmd = [''auggie''] then Finishes 3 code out err
      else if cmd = [''git'', ''status'', ''--porcelain''] then Finishes 0 0 status []
      else if cmd = [''git'', ''diff''] then Finishes 0 0 difftext []
      else if cmd = [''git'', ''rev-parse'', ''HEAD''] then Finishes 0 0 (''3f2a9c1'' @ [CHR 0x0A]) []
      else Finishes 0 0 [] [])"

definition stopwatch :: "state \<Rightarrow> rat" where
  \<comment> \<open>a clock that shows 0 until the preflight is over and 0.58 seconds afterwards\<close>
  "stopwatch s = (if length (events s) \<le> 2 then 0 else 29 / 50)"


definition no_agent :: "string list \<Rightarrow> behaviour" where
  \<comment> \<open>the runtime is installed, the agent binary is not on the path\<close>
  "no_agent cmd =
     (if cmd = [''node'', ''-v''] then Finishes 0 0 (''v20.11.0'' @ [CHR 0x0A]) []
      else if take 1 cmd = [''auggie'']
      then CannotStart ''[Errno 2] No such file or directory: 'auggie' ''
      else Finishes 0 0 [] [])"

section \<open>Properties\<close>

subsection \<open>The process runner\<close>


lemma run_Inr:
  assumes "run h cmd cwd t s = (Inr r, s')"
  shows "s' = s\<lparr>events := events s @ [Spawned cmd cwd t]\<rparr>
         \<and> (\<exists>d. proc h s cmd cwd = Finishes d (fst r) (fst (snd r)) (snd (snd r)) \<and> int d < t)"
  using assms by (auto simp: run_def Let_def split: behaviour.splits if_splits)

lemma git_Inr:
  assumes "git h args cwd t s = (Inr out, s')"
  shows "s' = s\<lparr>events := events s @ [Spawned (''git'' # args) (Some cwd) t]\<rparr>
         \<and> (\<exists>err. run h (''git'' # args) (Some cwd) t s = (Inr (0, out, err), s'))"
  using assms
  by (auto simp: git_def io_bind_def io_raise_def io_return_def
           split: prod.splits sum.splits if_splits dest: run_Inr)

text \<open>
  C8. When the process started by the runner does not complete within the timeout
  (it never finishes, or it needs at least as many seconds as the timeout allows), the
  runner kills it and the call ends with the timeout error: no exit code, output or
  error text is returned. The events of the call are the start of the process followed
  by its kill.
\<close>

theorem run_timeout:
  assumes "proc h s cmd cwd = NeverFinishes
           \<or> (\<exists>d code out err. proc h s cmd cwd = Finishes d code out err \<and> \<not> int d < timeout)"
  shows "fst (run h cmd cwd timeout s) = Inl TimeoutError
         \<and> events (snd (run h cmd cwd timeout s))
             = events s @ [Spawned cmd cwd timeout, Killed cmd]"
  using assms by (auto simp: run_def Let_def)

text \<open>The scenario of the specification: a timeout of one second, a process that sleeps five.\<close>

theorem run_timeout_witness:
  "proc (scripted sleeper) initial [''sleep'', ''5''] None = Finishes 5 0 [] []
   \<and> \<not> int 5 < 1
   \<and> fst (run (scripted sleeper) [''sleep'', ''5''] None 1 initial) = Inl TimeoutError
   \<and> events (snd (run (scripted sleeper) [''sleep'', ''5''] None 1 initial))
       = [Spawned [''sleep'', ''5''] None 1, Killed [''sleep'', ''5'']]"
  using run_timeout [of "scripted sleeper" initial "[''sleep'', ''5'']" None 1]
  by (simp add: scripted_def sleeper_def initial_def)

subsection \<open>The status pattern\<close>




















subsection \<open>The change collector\<close>







subsection \<open>The preflight\<close>

lemma py_int_exn: "py_int h x = Inl e \<Longrightarrow> is_Exception e"
  by (auto simp: py_int_def Let_def split: option.splits if_splits)

lemma run_Inl: "run h cmd cwd t s = (Inl e, s') \<Longrightarrow> is_Exception e"
  by (auto simp: run_def Let_def split: behaviour.splits if_splits)

lemma preflight_body_exn:
  assumes "preflight_body h s = (Inl e, s')"
  shows "is_Exception e"
  using assms unfolding preflight_body_def
  by (auto simp: io_bind_def io_raise_def io_return_def lift_def
           split: prod.splits sum.splits if_splits list.splits
           dest: run_Inl py_int_exn)

lemma preflight_result:
  "fst (preflight h s) = Inr () \<or> fst (preflight h s) = Inl (SystemExit 1)"
  using preflight_body_exn [of h s]
  by (auto simp: preflight_def except_Exception_def io_bind_def print_stderr_def io_modify_def
                 io_raise_def split: prod.splits sum.splits)

lemma checked_preflight_eq: "checked_preflight h s = preflight h s"
  using preflight_result [of h s]
  by (auto simp: checked_preflight_def except_Exception_def split: prod.splits sum.splits)

lemma preflight_body_Inr:
  assumes "preflight_body h s = (Inr u, s')"
  shows "s' = s\<lparr>events := events s @ preflight_events\<rparr>"
  using assms unfolding preflight_body_def preflight_events_def
  by (auto simp: io_bind_def io_raise_def io_return_def lift_def
           split: prod.splits sum.splits if_splits list.splits
           dest!: run_Inr)

lemma checked_preflight_Inr:
  assumes "checked_preflight h s = (Inr u, s')"
  shows "s' = s\<lparr>events := events s @ preflight_events\<rparr>"
  using assms preflight_body_Inr [of h s]
  by (auto simp: checked_preflight_eq preflight_def except_Exception_def io_bind_def
                 print_stderr_def io_modify_def io_raise_def
           split: prod.splits sum.splits if_splits)

lemma node_version: "py_int h ''20'' = Inr 20"
  by (simp add: py_int_def int_strip_def int_whitespace_def
                unsigned_value_def isdigit_def digit_val_def max_str_digits_def Let_def)

lemma node_split:
  "split_char CHR ''.'' (lstrip_chars ''v'' (strip (''v20.11.0'' @ [CHR 0x0A]))) = [''20'', ''11'', ''0'']"
  by (simp add: strip_def lstrip_def rstrip_def isspace_def whitespace_def lstrip_chars_def)

lemma node_strip: "strip (''v20.11.0'' @ [CHR 0x0A]) = ''v20.11.0''"
  by (simp add: strip_def lstrip_def rstrip_def isspace_def whitespace_def)

lemma tooling_preflight:
  "checked_preflight (scripted (tooling c out err st d)) s
     = (Inr (), s\<lparr>events := events s @ preflight_events\<rparr>)"
  using node_split node_strip
  by (simp add: checked_preflight_def preflight_def preflight_body_def except_Exception_def
                io_bind_def run_def scripted_def tooling_def node_version
                lift_def io_return_def io_raise_def Let_def preflight_events_def)

lemma no_agent_preflight:
  "preflight (scripted no_agent) s
     = (Inl (SystemExit 1),
        s\<lparr>events := events s @ [Spawned [''node'', ''-v''] None 5],
          stderr := stderr s @ [''[Auggie MCP] Preflight failed: [Errno 2] No such file or directory: 'auggie' '']\<rparr>)"
  using node_split node_strip
  by (simp add: preflight_def preflight_body_def except_Exception_def
                io_bind_def run_def scripted_def no_agent_def node_version print_stderr_def io_modify_def
                lift_def io_return_def io_raise_def Let_def SERVER_NAME_def)

lemma preflight_failure_exits:
  assumes "preflight h s = (Inl e, s1)"
  shows "ask_question h question workspace_root model rules_path timeout_sec ctx s
           = (Inl (SystemExit 1), s1)"
    and "implement h prompt workspace_root branch commit_message scope dry_run timeout_sec'
                   model rules_path ctx s
           = (Inl (SystemExit 1), s1)"
proof -
  have "e = SystemExit 1"
    using assms preflight_result [of h s] by simp
  then show "ask_question h question workspace_root model rules_path timeout_sec ctx s
           = (Inl (SystemExit 1), s1)"
    using assms by (simp add: ask_question_def io_bind_def checked_preflight_eq)
  show "implement h prompt workspace_root branch commit_message scope dry_run timeout_sec'
                   model rules_path ctx s
           = (Inl (SystemExit 1), s1)"
    using assms \<open>e = SystemExit 1\<close>
    by (simp add: implement_def invoke_agent_def io_bind_def checked_preflight_eq)
qed

text \<open>
  C3. The guard of both tools turns an exception of the preflight into the error
  \<^verbatim>\<open>Preflight failed: ...\<close> of the call, but the preflight never lets one out: it prints
  the failure on standard error and calls \<^verbatim>\<open>sys.exit(1)\<close>, and \<^verbatim>\<open>SystemExit\<close> is not
  caught by \<^verbatim>\<open>except Exception\<close> (\<open>checked_preflight_eq\<close>). On a host without the agent
  binary both tools therefore end with \<^verbatim>\<open>SystemExit(1)\<close>, not with an error of the call;
  the only process started is the runtime's version query.
\<close>

theorem missing_agent_exits:
  "fst (ask_question (scripted no_agent) ''What does main do?'' None None None DEFAULT_TIMEOUT
          False initial) = Inl (SystemExit 1)
   \<and> events (snd (ask_question (scripted no_agent) ''What does main do?'' None None None
                     DEFAULT_TIMEOUT False initial)) = [Spawned [''node'', ''-v''] None 5]
   \<and> fst (implement (scripted no_agent) ''Add a test'' None None None None True 300 None None
            False initial) = Inl (SystemExit 1)
   \<and> events (snd (implement (scripted no_agent) ''Add a test'' None None None None True 300
                     None None False initial)) = [Spawned [''node'', ''-v''] None 5]"
  by (simp add: preflight_failure_exits [OF no_agent_preflight] initial_def)

subsection \<open>The question tool\<close>

lemma info_eq:
  "info ctx msg s = (Inr (), if ctx then s\<lparr>infos := infos s @ [msg]\<rparr> else s)"
  by (simp add: info_def io_when_def io_modify_def io_return_def)

subsection \<open>Floating point\<close>

lemma ilog2_bounds: "0 < n \<Longrightarrow> 2 ^ ilog2 n \<le> n \<and> n < 2 ^ Suc (ilog2 n)"
proof (induction n rule: ilog2.induct)
  case (1 n)
  show ?case
  proof (cases "n < 2")
    case True
    then have "n = 1" using 1(2) by simp
    then show ?thesis by (simp add: ilog2.simps)
  next
    case False
    then have pos: "0 < n div 2" by simp
    from 1(1) [OF False pos] have a: "2 ^ ilog2 (n div 2) \<le> n div 2"
      and b: "n div 2 < 2 ^ Suc (ilog2 (n div 2))" by simp_all
    have e: "ilog2 n = Suc (ilog2 (n div 2))"
      using False by (subst ilog2.simps) simp
    have "2 * 2 ^ ilog2 (n div 2) \<le> n" using a by linarith
    moreover have "n < 2 * 2 ^ Suc (ilog2 (n div 2))" using b by linarith
    ultimately show ?thesis unfolding e by simp
  qed
qed

lemma pow2_nat: "pow2 (int k) = 2 ^ k"
  by (simp add: pow2_def)

lemma pow2_pos: "0 < pow2 e"
  by (simp add: pow2_def)

lemma pow2_Suc: "pow2 (e + 1) = 2 * pow2 e"
proof (cases "0 \<le> e")
  case True
  then show ?thesis by (simp add: pow2_def nat_add_distrib)
next
  case False
  then have "nat (- e) = Suc (nat (- (e + 1)))" by simp
  then show ?thesis using False by (simp add: pow2_def)
qed

lemma pow2_neg: "pow2 (- int k) = 1 / 2 ^ k"
  by (simp add: pow2_def)

lemma binade_lower:
  assumes "x \<noteq> 0"
  shows "pow2 (binade x) \<le> \<bar>x\<bar>"
proof (cases "1 \<le> \<bar>x\<bar>")
  case True
  then have p: "0 < nat \<lfloor>\<bar>x\<bar>\<rfloor>" by simp
  have "rat_of_nat (2 ^ ilog2 (nat \<lfloor>\<bar>x\<bar>\<rfloor>)) \<le> rat_of_nat (nat \<lfloor>\<bar>x\<bar>\<rfloor>)"
    using ilog2_bounds [OF p] by (meson of_nat_le_iff)
  also have "\<dots> = rat_of_int \<lfloor>\<bar>x\<bar>\<rfloor>" using True by simp
  also have "\<dots> \<le> \<bar>x\<bar>" by simp
  finally show ?thesis using True by (simp add: binade_def pow2_nat)
next
  case False
  let ?a = "\<bar>x\<bar>"
  let ?k = "ilog2 (nat \<lfloor>1 / ?a\<rfloor>)"
  have a: "0 < ?a" "?a < 1" using assms False by simp_all
  show ?thesis
  proof (cases "?a = pow2 (- int ?k)")
    case True
    then show ?thesis using False by (simp add: binade_def Let_def)
  next
    case neq: False
    have "1 < 1 / ?a" using a by simp
    then have p: "0 < nat \<lfloor>1 / ?a\<rfloor>" by simp
    have "1 / ?a < rat_of_int (\<lfloor>1 / ?a\<rfloor> + 1)" by linarith
    also have "\<dots> = rat_of_nat (nat \<lfloor>1 / ?a\<rfloor> + 1)" using p by simp
    also have "\<dots> \<le> rat_of_nat (2 ^ Suc ?k)"
      using ilog2_bounds [OF p] by (metis Suc_eq_plus1 Suc_leI of_nat_le_iff)
    finally have "1 / ?a < 2 ^ Suc ?k" by simp
    then have "1 / 2 ^ Suc ?k < ?a"
      using a by (simp add: field_simps)
    moreover have "binade x = - int ?k - 1"
      using False neq by (simp add: binade_def Let_def)
    moreover have "- int ?k - 1 = - int (Suc ?k)" by simp
    then have "pow2 (- int ?k - 1) = 1 / 2 ^ Suc ?k"
      using pow2_neg [of "Suc ?k"] by metis
    ultimately show ?thesis by simp
  qed
qed

lemma round_even_near: "\<bar>rat_of_int (round_even n) - n\<bar> \<le> 1 / 2"
proof -
  have f: "rat_of_int \<lfloor>n\<rfloor> \<le> n" "n < rat_of_int \<lfloor>n\<rfloor> + 1"
    by linarith+
  show ?thesis
    unfolding round_even_def Let_def using f
    by (auto simp: abs_le_iff split: if_splits)
qed

lemma pow2_powi: "pow2 e = 2 powi e"
  by (simp add: pow2_def power_int_def inverse_eq_divide power_one_over)

lemma pow2_diff: "pow2 (a - b) = pow2 a / pow2 b"
  by (simp add: pow2_powi power_int_diff)

lemma pow2_mono: "a \<le> b \<Longrightarrow> pow2 a \<le> pow2 b"
  by (simp add: pow2_powi power_int_increasing)

lemma to_double_error:
  "\<bar>to_double x - x\<bar> \<le> max \<bar>x\<bar> (pow2 (- 1022)) / 2 ^ 53"
proof (cases "x = 0")
  case True
  then show ?thesis using pow2_pos [of "- 1022"] by (simp add: to_double_def)
next
  case False
  define e where "e = max (binade x) (- 1022)"
  define u where "u = pow2 (e - 52)"
  have u: "0 < u" unfolding u_def by (rule pow2_pos)
  have td: "to_double x = rat_of_int (round_even (x / u)) * u"
    using False by (simp add: to_double_def Let_def e_def u_def)
  have "to_double x - x = (rat_of_int (round_even (x / u)) - x / u) * u"
    using u by (simp add: td field_simps)
  then have "\<bar>to_double x - x\<bar> = \<bar>rat_of_int (round_even (x / u)) - x / u\<bar> * u"
    using u by (simp add: abs_mult)
  also have "\<dots> \<le> 1 / 2 * u"
    using round_even_near [of "x / u"] u by (intro mult_right_mono) simp_all
  also have "\<dots> = pow2 e / 2 ^ 53"
    unfolding u_def pow2_diff by (simp add: pow2_nat [of 52, simplified])
  also have "\<dots> \<le> max \<bar>x\<bar> (pow2 (- 1022)) / 2 ^ 53"
  proof -
    have "pow2 e \<le> max \<bar>x\<bar> (pow2 (- 1022))"
      using binade_lower [OF False] unfolding e_def by (auto simp: max_def)
    then show ?thesis by (simp add: divide_right_mono)
  qed
  finally show ?thesis .
qed

lemma pow2_tiny: "pow2 (- 1022) \<le> 1"
  using pow2_mono [of "- 1022" 0] by (simp add: pow2_def)

lemma to_double_within:
  assumes "\<bar>x\<bar> \<le> c" and "1 \<le> c"
  shows "\<bar>to_double x - x\<bar> \<le> c / 2 ^ 53"
proof -
  have "max \<bar>x\<bar> (pow2 (- 1022)) \<le> c"
    using assms pow2_tiny by simp
  then have "max \<bar>x\<bar> (pow2 (- 1022)) / 2 ^ 53 \<le> c / 2 ^ 53"
    by (simp add: divide_right_mono)
  with to_double_error [of x] show ?thesis by linarith
qed

lemma py_trunc_near: "\<bar>rat_of_int (py_trunc m) - m\<bar> < 1"
  unfolding py_trunc_def by (auto simp: abs_less_iff) linarith+

lemma big_pow2: "2 ^ 60 < pow2 1024"
proof -
  have "pow2 60 \<le> pow2 1023" by (rule pow2_mono) simp
  moreover have "pow2 1023 < pow2 1024"
    using pow2_Suc [of 1023] pow2_pos [of 1023] by simp
  moreover have "pow2 60 = 2 ^ 60" using pow2_nat [of 60] by simp
  ultimately show ?thesis by simp
qed

lemma elapsed_ms_bounded:
  assumes "\<bar>c0\<bar> \<le> 2 ^ 36" and "\<bar>c1\<bar> \<le> 2 ^ 36"
  defines "t0 \<equiv> to_double c0" and "t1 \<equiv> to_double c1"
  shows "elapsed_ms t0 t1 = Inr (py_trunc (to_double (to_double (t1 - t0) * 1000)))"
    and "\<bar>rat_of_int (py_trunc (to_double (to_double (t1 - t0) * 1000))) - 1000 * (t1 - t0)\<bar> < 2"
proof -
  have a0: "\<bar>t0 - c0\<bar> \<le> 2 ^ 36 / 2 ^ 53" and a1: "\<bar>t1 - c1\<bar> \<le> 2 ^ 36 / 2 ^ 53"
    unfolding t0_def t1_def using assms(1,2) by (intro to_double_within; simp)+
  note u = abs_le_iff abs_less_iff
  have b: "\<bar>t1 - t0\<bar> \<le> 2 ^ 38"
    using a0 [unfolded u] a1 [unfolded u] assms(1,2) [unfolded u] unfolding u by simp
  define d where "d = to_double (t1 - t0)"
  have dd: "\<bar>d - (t1 - t0)\<bar> \<le> 2 ^ 38 / 2 ^ 53"
    unfolding d_def using b by (intro to_double_within) simp_all
  have db: "\<bar>d\<bar> \<le> 2 ^ 39"
    using dd [unfolded u] b [unfolded u] unfolding u by simp
  have d1000: "\<bar>d * 1000\<bar> \<le> 2 ^ 49"
    using db [unfolded u] unfolding u by simp
  define m where "m = to_double (d * 1000)"
  have mm: "\<bar>m - d * 1000\<bar> \<le> 2 ^ 49 / 2 ^ 53"
    unfolding m_def using d1000 by (intro to_double_within) simp_all
  have mb: "\<bar>m\<bar> \<le> 2 ^ 50"
    using mm [unfolded u] d1000 [unfolded u] unfolding u by simp
  have fd: "\<bar>d\<bar> < pow2 1024"
    using db big_pow2 by simp
  have fm: "\<bar>m\<bar> < pow2 1024"
    using mb big_pow2 by simp
  show "elapsed_ms t0 t1 = Inr (py_trunc (to_double (to_double (t1 - t0) * 1000)))"
    using fd fm by (simp add: elapsed_ms_def float_result_def Let_def d_def m_def)
  have "\<bar>rat_of_int (py_trunc m) - 1000 * (t1 - t0)\<bar> < 2"
    using py_trunc_near [of m, unfolded u] mm [unfolded u] dd [unfolded u] unfolding u by simp
  then show "\<bar>rat_of_int (py_trunc (to_double (to_double (t1 - t0) * 1000))) - 1000 * (t1 - t0)\<bar> < 2"
    by (simp add: m_def d_def)
qed

lemma floor_numeral_div:
  "\<lfloor>(numeral a :: rat) / numeral b\<rfloor> = numeral a div numeral b"
  "\<lfloor>- ((numeral a :: rat) / numeral b)\<rfloor> = - numeral a div numeral b"
  "\<lfloor>(1 :: rat) / numeral b\<rfloor> = 1 div numeral b"
  "\<lfloor>- ((1 :: rat) / numeral b)\<rfloor> = - 1 div numeral b"
  using floor_divide_of_int_eq [of "numeral a" "numeral b", where ?'a = rat]
        floor_divide_of_int_eq [of "- numeral a" "numeral b", where ?'a = rat]
        floor_divide_of_int_eq [of 1 "numeral b", where ?'a = rat]
        floor_divide_of_int_eq [of "- 1" "numeral b", where ?'a = rat]
  by simp_all

lemmas float_eval = elapsed_ms_def float_result_def to_double_def binade_def round_even_def
  pow2_def py_trunc_def ilog2.simps Let_def floor_numeral_div ceiling_def

lemma elapsed_ms_examples:
  "elapsed_ms 0 (5224175567749775 / 9007199254740992) = Inr 580"
  "elapsed_ms (to_double (1 / 10)) (to_double (3 / 10)) = Inr 199"
  "elapsed_ms (to_double (3 / 10)) (to_double (1 / 10)) = Inr (- 199)"
  "to_double (29 / 50) = 5224175567749775 / 9007199254740992"
  by (simp_all add: float_eval)

lemma run_clock: "run (h\<lparr>clock := c\<rparr>) = run h"
  by (simp add: fun_eq_iff run_def)

lemma py_int_clock: "py_int (h\<lparr>clock := c\<rparr>) = py_int h"
  by (simp add: fun_eq_iff py_int_def Let_def split: option.splits)

lemma preflight_clock: "checked_preflight (h\<lparr>clock := c\<rparr>) = checked_preflight h"
  unfolding checked_preflight_def preflight_def preflight_body_def run_clock py_int_clock
  by (rule refl)

lemmas clock_irrelevant = run_clock preflight_clock

text \<open>
  C7. Once the preflight has passed, the question tool is decided by the result of the
  agent process. An exit code other than zero ends the call with the agent failure:
  the error whose text is \<^verbatim>\<open>Auggie failed: \<close> followed by the stripped standard error
  when that is not empty, and by the stripped standard output otherwise; the call gives
  no answer. Exit code zero gives the stripped standard output as the answer, with the
  duration in milliseconds: the difference of the two clock readings, times 1000, each
  operation rounded as floats are, cut to an integer; it is less than two milliseconds
  away from the exact difference of the readings. The readings are those of a clock
  within \<open>2 ^ 36\<close> seconds (some two thousand years) of its epoch, so that no float
  overflows. Two values of the duration are given: readings 0.0 and 0.58 give 580 (the
  exact product is just below 580 and rounds up to it), readings 0.1 and 0.3 give 199.
\<close>

theorem ask_question_outcome:
  assumes "checked_preflight h s = (Inr (), s1)"
      and "run h (auggie_base_args question workspace_root model rules_path True)
               workspace_root timeout_sec
               (announced ctx (auggie_base_args question workspace_root model rules_path True) s1)
             = (Inr (code, out, err), s2)"
  shows "(code \<noteq> 0 \<longrightarrow>
            ask_question h question workspace_root model rules_path timeout_sec ctx s
              = (Inl (RuntimeError (''Auggie failed: ''
                        @ (if strip err \<noteq> [] then strip err else strip out))), s2))
       \<and> (code = 0 \<and> \<bar>clock h s1\<bar> \<le> 2 ^ 36 \<and> \<bar>clock h s2\<bar> \<le> 2 ^ 36 \<longrightarrow>
            (\<exists>ms. ask_question h question workspace_root model rules_path timeout_sec ctx s
                    = (Inr \<lparr>usage = \<lparr>duration_ms = ms\<rparr>, answer = strip out\<rparr>, s2)
                \<and> ms = py_trunc (to_double (to_double
                             (to_double (clock h s2) - to_double (clock h s1)) * 1000))
                \<and> \<bar>rat_of_int ms - 1000 * (to_double (clock h s2) - to_double (clock h s1))\<bar> < 2))
       \<and> elapsed_ms 0 (5224175567749775 / 9007199254740992) = Inr 580
       \<and> elapsed_ms (to_double (1 / 10)) (to_double (3 / 10)) = Inr 199"
proof (intro conjI impI)
  assume "code \<noteq> 0"
  then show "ask_question h question workspace_root model rules_path timeout_sec ctx s
              = (Inl (RuntimeError (''Auggie failed: ''
                        @ (if strip err \<noteq> [] then strip err else strip out))), s2)"
    using assms
    by (cases ctx)
       (simp_all add: ask_question_def io_bind_def io_get_def Let_def info_eq announced_def
                      io_raise_def io_return_def agent_failure_def or_else_def)
next
  assume a: "code = 0 \<and> \<bar>clock h s1\<bar> \<le> 2 ^ 36 \<and> \<bar>clock h s2\<bar> \<le> 2 ^ 36"
  note e = elapsed_ms_bounded [of "clock h s1" "clock h s2"]
  have "ask_question h question workspace_root model rules_path timeout_sec ctx s
          = (Inr \<lparr>usage = \<lparr>duration_ms = py_trunc (to_double (to_double
                             (to_double (clock h s2) - to_double (clock h s1)) * 1000))\<rparr>,
                  answer = strip out\<rparr>, s2)"
    using assms a e(1)
    by (cases ctx)
       (simp_all add: ask_question_def io_bind_def io_get_def Let_def info_eq announced_def
                      io_raise_def io_return_def lift_def time_time_def)
  then show "\<exists>ms. ask_question h question workspace_root model rules_path timeout_sec ctx s
                    = (Inr \<lparr>usage = \<lparr>duration_ms = ms\<rparr>, answer = strip out\<rparr>, s2)
                \<and> ms = py_trunc (to_double (to_double
                             (to_double (clock h s2) - to_double (clock h s1)) * 1000))
                \<and> \<bar>rat_of_int ms - 1000 * (to_double (clock h s2) - to_double (clock h s1))\<bar> < 2"
    using a e(2) by blast
next
  show "elapsed_ms 0 (5224175567749775 / 9007199254740992) = Inr 580"
    by (rule elapsed_ms_examples)
next
  show "elapsed_ms (to_double (1 / 10)) (to_double (3 / 10)) = Inr 199"
    by (rule elapsed_ms_examples)
qed

text \<open>
  An agent that fails with exit code 2, and one that answers while the clock goes from 0
  to 0.58 seconds.
\<close>

theorem ask_question_outcome_witness:
  "fst (ask_question (scripted (tooling 2 '' partial'' ('' boom'' @ [CHR 0x0A]) [] []))
          ''What does main do?'' None None None DEFAULT_TIMEOUT False initial)
     = Inl (RuntimeError ''Auggie failed: boom'')
   \<and> fst (ask_question
            ((scripted (tooling 0 ('' It parses.'' @ [CHR 0x0A]) [] [] []))\<lparr>clock := stopwatch\<rparr>)
            ''What does main do?'' None None None DEFAULT_TIMEOUT False initial)
     = Inr \<lparr>usage = \<lparr>duration_ms = 580\<rparr>, answer = ''It parses.''\<rparr>"
proof -
  let ?bad = "scripted (tooling 2 '' partial'' ('' boom'' @ [CHR 0x0A]) [] [])"
  let ?base = "scripted (tooling 0 ('' It parses.'' @ [CHR 0x0A]) [] [] [])"
  let ?good = "?base\<lparr>clock := stopwatch\<rparr>"
  let ?s1 = "initial\<lparr>events := events initial @ preflight_events\<rparr>"
  let ?cmd = "auggie_base_args ''What does main do?'' None None None True"
  let ?s2 = "?s1\<lparr>events := events ?s1 @ [Spawned ?cmd None DEFAULT_TIMEOUT]\<rparr>"
  have bad: "run ?bad ?cmd None DEFAULT_TIMEOUT (announced False ?cmd ?s1)
               = (Inr (2, '' partial'', '' boom'' @ [CHR 0x0A]), ?s2)"
    by (simp add: run_def scripted_def tooling_def announced_def auggie_base_args_def
                  flag_arg_def DEFAULT_TIMEOUT_def Let_def)
  have pre: "checked_preflight ?good initial = (Inr (), ?s1)"
    by (simp add: clock_irrelevant tooling_preflight)
  have good: "run ?good ?cmd None DEFAULT_TIMEOUT (announced False ?cmd ?s1)
               = (Inr (0, '' It parses.'' @ [CHR 0x0A], []), ?s2)"
    unfolding clock_irrelevant
    by (simp add: run_def scripted_def tooling_def announced_def auggie_base_args_def
                  flag_arg_def DEFAULT_TIMEOUT_def Let_def)
  have c1: "clock ?good ?s1 = 0" and c2: "clock ?good ?s2 = 29 / 50"
    by (simp_all add: stopwatch_def initial_def preflight_events_def)
  have ms: "py_trunc (to_double (to_double (to_double (29 / 50) - to_double 0) * 1000)) = 580"
    by (simp add: float_eval)
  have "\<bar>clock ?good ?s1\<bar> \<le> 2 ^ 36" "\<bar>clock ?good ?s2\<bar> \<le> 2 ^ 36"
    unfolding c1 c2 by simp_all
  with ask_question_outcome [OF pre good]
  obtain ms where
    r: "ask_question ?good ''What does main do?'' None None None DEFAULT_TIMEOUT False initial
                = (Inr \<lparr>usage = \<lparr>duration_ms = ms\<rparr>,
                        answer = strip ('' It parses.'' @ [CHR 0x0A])\<rparr>, ?s2)"
    and m: "ms = py_trunc (to_double (to_double
                         (to_double (clock ?good ?s2) - to_double (clock ?good ?s1)) * 1000))"
    by blast
  have "ms = 580" unfolding m c1 c2 by (rule ms)
  then have g: "fst (ask_question ?good ''What does main do?'' None None None DEFAULT_TIMEOUT False initial)
                = Inr \<lparr>usage = \<lparr>duration_ms = 580\<rparr>,
                        answer = strip ('' It parses.'' @ [CHR 0x0A])\<rparr>"
    using r by simp
  show ?thesis
    using ask_question_outcome [OF tooling_preflight bad] g
    by (simp add: strip_def lstrip_def rstrip_def isspace_def whitespace_def)
qed

end
